theory Spec2Isabelle
  imports Complex_Main
begin

section \<open>JavaScript values used by the Migration component\<close>

text \<open>
  The component \<^verbatim>\<open>src/components/molecules/Migration/index.tsx\<close> reads strings from
  its hooks and turns them into numbers with the built-ins \<^verbatim>\<open>Number\<close>, \<^verbatim>\<open>isNaN\<close> and
  \<^verbatim>\<open>parseInt\<close>. Strings are lists of code units below 256.
\<close>

subsection \<open>Characters and digits\<close>

definition isWhiteSpace :: "char \<Rightarrow> bool" where
  \<comment> \<open>TAB, LF, VT, FF, CR, SP and NBSP: the white space and line terminators below 256.\<close>
  "isWhiteSpace c = ((of_char c :: nat) \<in> {9, 10, 11, 12, 13, 32, 160})"

definition isDigit :: "char \<Rightarrow> bool" where
  "isDigit c = (48 \<le> (of_char c :: nat) \<and> (of_char c :: nat) \<le> 57)"

definition digitVal :: "char \<Rightarrow> nat" where
  \<comment> \<open>Value of a digit of any radix up to 16; 99 for a character that is no digit.\<close>
  "digitVal c =
     (let k = (of_char c :: nat)
      in if 48 \<le> k \<and> k \<le> 57 then k - 48
         else if 97 \<le> k \<and> k \<le> 102 then k - 87
         else if 65 \<le> k \<and> k \<le> 70 then k - 55
         else 99)"

definition isRadixDigit :: "nat \<Rightarrow> char \<Rightarrow> bool" where
  "isRadixDigit R c = (digitVal c < R)"

definition digitsValue :: "nat \<Rightarrow> string \<Rightarrow> nat" where
  "digitsValue R ds = foldl (\<lambda>acc c. acc * R + digitVal c) 0 ds"

definition trimStart :: "string \<Rightarrow> string" where
  "trimStart s = dropWhile isWhiteSpace s"

definition trim :: "string \<Rightarrow> string" where
  "trim s = rev (dropWhile isWhiteSpace (rev (dropWhile isWhiteSpace s)))"

subsection \<open>\<^verbatim>\<open>Number(string)\<close>\<close>

text \<open>
  A \<^verbatim>\<open>Number\<close> result is NaN, an infinity or a finite value. The component only
  tests such a value with \<^verbatim>\<open>isNaN\<close> and compares it with 0, so a finite value is
  carried as the exact value of the literal; JavaScript rounds it further to 53
  significant bits, which changes neither its sign nor whether it is 0 once the
  values that underflow to 0 and overflow to an infinity are accounted for, as
  \<open>toDoubleRange\<close> does.
\<close>

datatype jsnum = NaN | NegInfinity | Finite rat | PosInfinity

definition toDoubleRange :: "rat \<Rightarrow> jsnum" where
  \<comment> \<open>Round to nearest, ties to even: at most half the least subnormal \<open>2^-1074\<close> gives 0,
      at least halfway from the greatest double to \<open>2^1024\<close> gives an infinity.\<close>
  "toDoubleRange q =
     (if \<bar>q\<bar> \<le> 1 / 2 ^ 1075 then Finite 0
      else if 2 ^ 1024 - 2 ^ 970 \<le> \<bar>q\<bar> then (if q < 0 then NegInfinity else PosInfinity)
      else Finite q)"

fun negate :: "jsnum \<Rightarrow> jsnum" where
  "negate NaN = NaN"
| "negate NegInfinity = PosInfinity"
| "negate (Finite q) = Finite (- q)"
| "negate PosInfinity = NegInfinity"

definition unsignedInteger :: "string \<Rightarrow> int option" where
  "unsignedInteger s = (if s \<noteq> [] \<and> list_all isDigit s then Some (int (digitsValue 10 s)) else None)"

definition ExponentPart :: "string \<Rightarrow> int option" where
  \<comment> \<open>The text after \<^verbatim>\<open>e\<close> or \<^verbatim>\<open>E\<close>: an optional sign and at least one digit, nothing else.\<close>
  "ExponentPart s =
     (case s of
        [] \<Rightarrow> None
      | c # r \<Rightarrow>
          if c = CHR ''+'' then unsignedInteger r
          else if c = CHR ''-'' then map_option uminus (unsignedInteger r)
          else unsignedInteger s)"

definition StrUnsignedDecimalLiteral :: "string \<Rightarrow> jsnum" where
  \<comment> \<open>\<^verbatim>\<open>Infinity\<close>, or digits with an optional fraction and an optional exponent; at least one
      digit before or after the point.\<close>
  "StrUnsignedDecimalLiteral s =
     (if s = ''Infinity'' then PosInfinity
      else
        let ip = takeWhile isDigit s;
            r1 = dropWhile isDigit s;
            hasDot = (r1 \<noteq> [] \<and> hd r1 = CHR ''.'');
            fp = (if hasDot then takeWhile isDigit (tl r1) else []);
            r2 = (if hasDot then dropWhile isDigit (tl r1) else r1);
            ex = (if r2 = [] then Some 0
                  else if hd r2 = CHR ''e'' \<or> hd r2 = CHR ''E'' then ExponentPart (tl r2)
                  else None)
        in if ip = [] \<and> fp = [] then NaN
           else case ex of
                  None \<Rightarrow> NaN
                | Some e \<Rightarrow>
                    toDoubleRange (of_nat (digitsValue 10 (ip @ fp)) * 10 powi (e - int (length fp))))"

definition StrDecimalLiteral :: "string \<Rightarrow> jsnum" where
  "StrDecimalLiteral s =
     (case s of
        [] \<Rightarrow> NaN
      | c # r \<Rightarrow>
          if c = CHR ''+'' then StrUnsignedDecimalLiteral r
          else if c = CHR ''-'' then negate (StrUnsignedDecimalLiteral r)
          else StrUnsignedDecimalLiteral s)"

definition NonDecimalIntegerLiteral :: "string \<Rightarrow> jsnum option" where
  \<comment> \<open>\<^verbatim>\<open>0x\<close>, \<^verbatim>\<open>0o\<close> and \<^verbatim>\<open>0b\<close> literals (either case), without sign; \<open>None\<close> when the string
      has no such prefix.\<close>
  "NonDecimalIntegerLiteral s =
     (case s of
        c0 # p # ds \<Rightarrow>
          if c0 = CHR ''0'' \<and> p \<in> set ''xXoObB'' then
            (let R = (if p \<in> set ''xX'' then 16 else if p \<in> set ''oO'' then 8 else 2)
             in Some (if ds \<noteq> [] \<and> list_all (isRadixDigit R) ds
                      then toDoubleRange (of_nat (digitsValue R ds)) else NaN))
          else None
      | _ \<Rightarrow> None)"

definition Number_js :: "string \<Rightarrow> jsnum" where
  \<comment> \<open>\<^verbatim>\<open>Number(s)\<close> for a string: white space is trimmed on both sides, the empty string is 0,
      anything that is not a numeric literal as a whole is NaN.\<close>
  "Number_js s =
     (let t = trim s
      in if t = [] then Finite 0
         else case NonDecimalIntegerLiteral t of
                Some v \<Rightarrow> v
              | None \<Rightarrow> StrDecimalLiteral t)"

fun isNaN :: "jsnum \<Rightarrow> bool" where
  "isNaN NaN = True"
| "isNaN _ = False"

fun gt_zero :: "jsnum \<Rightarrow> bool" where
  \<comment> \<open>\<^verbatim>\<open>x > 0\<close>; false for NaN.\<close>
  "gt_zero NaN = False"
| "gt_zero NegInfinity = False"
| "gt_zero (Finite q) = (0 < q)"
| "gt_zero PosInfinity = True"

fun le_zero :: "jsnum \<Rightarrow> bool" where
  \<comment> \<open>\<^verbatim>\<open>x <= 0\<close>; false for NaN.\<close>
  "le_zero NaN = False"
| "le_zero NegInfinity = True"
| "le_zero (Finite q) = (q \<le> 0)"
| "le_zero PosInfinity = False"

subsection \<open>\<^verbatim>\<open>parseInt(string)\<close> and the rendering of an integer\<close>

text \<open>
  \<^verbatim>\<open>parseInt\<close> yields NaN, an infinity or an integer that a double holds. A double holds
  every integer below \<open>2^53\<close> in absolute value; a larger one is rounded to 53 significant
  bits, to nearest with ties to even, and from \<open>2^1024\<close> on it is an infinity.
\<close>

datatype jsint = IntNaN | IntNegInfinity | IntVal int | IntPosInfinity

fun bitLength :: "nat \<Rightarrow> nat" where
  "bitLength n = (if n = 0 then 0 else Suc (bitLength (n div 2)))"

definition roundToDouble :: "int \<Rightarrow> jsint" where
  \<comment> \<open>The double nearest to an integer.\<close>
  "roundToDouble n =
     (if \<bar>n\<bar> < 2 ^ 53 then IntVal n
      else
        let a = nat \<bar>n\<bar>;
            e = bitLength a - 53;
            q = a div 2 ^ e;
            r = a mod 2 ^ e;
            q' = (if 2 ^ (e - 1) < r \<or> (r = 2 ^ (e - 1) \<and> odd q) then q + 1 else q);
            m = q' * 2 ^ e
        in if 2 ^ 1024 \<le> m then (if n < 0 then IntNegInfinity else IntPosInfinity)
           else IntVal (if n < 0 then - int m else int m))"

definition parseInt_js :: "string \<Rightarrow> jsint" where
  \<comment> \<open>No radix argument: leading white space is skipped, then an optional sign, then an
      optional \<^verbatim>\<open>0x\<close> that selects radix 16; the longest run of digits is read and the rest
      of the string is ignored; no digit at all is NaN.\<close>
  "parseInt_js s =
     (let S0 = trimStart s;
          neg = (S0 \<noteq> [] \<and> hd S0 = CHR ''-'');
          S1 = (if S0 \<noteq> [] \<and> (hd S0 = CHR ''+'' \<or> hd S0 = CHR ''-'') then tl S0 else S0);
          hex = (case S1 of c0 # p # _ \<Rightarrow> c0 = CHR ''0'' \<and> (p = CHR ''x'' \<or> p = CHR ''X'') | _ \<Rightarrow> False);
          R = (if hex then 16 else 10);
          S2 = (if hex then drop 2 S1 else S1);
          Z = takeWhile (isRadixDigit R) S2
      in if Z = [] then IntNaN
         else roundToDouble ((if neg then - 1 else 1) * int (digitsValue R Z)))"

fun minus_block :: "jsint \<Rightarrow> int \<Rightarrow> jsint" where
  \<comment> \<open>\<^verbatim>\<open>x - block\<close> for a block height that is an integer held by a double: the exact
      difference, rounded; NaN and the infinities stay.\<close>
  "minus_block IntNaN b = IntNaN"
| "minus_block IntNegInfinity b = IntNegInfinity"
| "minus_block (IntVal d) b = roundToDouble (d - b)"
| "minus_block IntPosInfinity b = IntPosInfinity"

fun show_nat :: "nat \<Rightarrow> string" where
  "show_nat n =
     (if n < 10 then [''0123456789'' ! n]
      else show_nat (n div 10) @ [''0123456789'' ! (n mod 10)])"

definition show_int :: "int \<Rightarrow> string" where
  "show_int i = (if i < 0 then CHR ''-'' # show_nat (nat (- i)) else show_nat (nat i))"

text \<open>
  The rendering of a double \<open>v\<close> of \<open>2^53\<close> or more: the fewest decimal digits \<open>s\<close> with a
  power of ten \<open>10^p\<close> such that \<open>s * 10^p\<close> rounds to \<open>v\<close>, the nearest to \<open>v\<close> when several
  have as few digits. Up to 21 places the digits are followed by zeros, beyond that the
  exponent is written.
\<close>

definition digitCount :: "nat \<Rightarrow> nat" where
  "digitCount v = length (show_nat v)"

definition candidates :: "nat \<Rightarrow> nat \<Rightarrow> (nat \<times> nat) list" where
  \<comment> \<open>The pairs \<open>(s, p)\<close> with \<open>s\<close> of exactly \<open>k\<close> digits and \<open>s * 10^p\<close> rounding to \<open>v\<close>; only
      the two values of \<open>s\<close> around \<open>v / 10^p\<close> can be nearest.\<close>
  "candidates v k =
     [(s, n - k).
        n \<leftarrow> [digitCount v, digitCount v + 1],
        k \<le> n,
        s \<leftarrow> [v div 10 ^ (n - k), v div 10 ^ (n - k) + 1],
        10 ^ (k - 1) \<le> s \<and> s < 10 ^ k \<and> roundToDouble (int (s * 10 ^ (n - k))) = IntVal (int v)]"

definition nearer :: "nat \<Rightarrow> nat \<times> nat \<Rightarrow> nat \<times> nat \<Rightarrow> nat \<times> nat" where
  \<comment> \<open>Of two candidates the one nearer to \<open>v\<close>; at the same distance the one with even \<open>s\<close>.\<close>
  "nearer v best c =
     (let d = \<bar>int (fst c * 10 ^ snd c) - int v\<bar>;
          db = \<bar>int (fst best * 10 ^ snd best) - int v\<bar>
      in if d < db \<or> (d = db \<and> even (fst c)) then c else best)"

function shortestDigits :: "nat \<Rightarrow> nat \<Rightarrow> nat \<times> nat" where
  "shortestDigits v k =
     (case candidates v k of
        [] \<Rightarrow> (if k < digitCount v then shortestDigits v (k + 1) else (v, 0))
      | c # cs \<Rightarrow> foldl (nearer v) c cs)"
  by pat_completeness auto
termination
  by (relation "measure (\<lambda>(v, k). digitCount v - k)") auto

declare shortestDigits.simps [simp del]

definition formatDigits :: "nat \<times> nat \<Rightarrow> string" where
  "formatDigits sp =
     (let ds = show_nat (fst sp);
          k = length ds;
          n = k + snd sp
      in if n \<le> 21 then ds @ replicate (snd sp) (CHR ''0'')
         else if k = 1 then ds @ ''e+'' @ show_nat (n - 1)
         else hd ds # CHR ''.'' # tl ds @ ''e+'' @ show_nat (n - 1))"

fun toString :: "jsint \<Rightarrow> string" where
  \<comment> \<open>What a template literal inserts for a number.\<close>
  "toString IntNaN = ''NaN''"
| "toString IntNegInfinity = ''-Infinity''"
| "toString (IntVal i) =
     (if \<bar>i\<bar> < 2 ^ 53 then show_int i
      else (if i < 0 then ''-'' else []) @ formatDigits (shortestDigits (nat \<bar>i\<bar>) 1))"
| "toString IntPosInfinity = ''Infinity''"

section \<open>The Migration component\<close>

subsection \<open>Data\<close>

datatype MigrationAction =
  NONE | START_MIGRATION | COMPLETE_MIGRATION | CANCEL_MIGRATION
  | LOCK_SHARES | REMOVE_SHARES | VIEW_V4_ASSET

text \<open>
  Modelled from the spec: the enum \<^verbatim>\<open>MigrationStatus\<close> is imported from
  \<^verbatim>\<open>providers/Migration\<close>, which is not among the sources. The component names its members
  \<^verbatim>\<open>COMPLETED\<close> and \<^verbatim>\<open>NOT_STARTED\<close>; the specification's \<^verbatim>\<open>MigrationPhase\<close> has
  \<^verbatim>\<open>NOT_STARTED | STARTED | COMPLETED\<close>.
\<close>

datatype MigrationStatus = NOT_STARTED | STARTED | COMPLETED

text \<open>The shape the GraphQL query gives to \<^verbatim>\<open>content\<close>.\<close>

record ContentEntry =
  title :: string
  "text" :: string

record LiquidityProviderContent =
  migrationNotStarted :: ContentEntry
  migrationStarted :: ContentEntry
  poolSharesLocked :: ContentEntry
  deadlineMetThresholdMet :: ContentEntry
  migrationComplete :: ContentEntry

record Content =
  liquidityProvider :: LiquidityProviderContent

text \<open>
  What \<^verbatim>\<open>useWeb3()\<close> and \<^verbatim>\<open>useMigrationStatus()\<close> hand to one rendering of the component.
  The inner functions read these values from the enclosing scope.
\<close>

record Hooks =
  accountId :: "string option"
  block :: int
  status :: MigrationStatus
  thresholdMet :: bool
  deadlinePassed :: bool
  poolShares :: string
  poolShareOwners :: "string list option"
  lockedSharesV3 :: "string option"
  deadline :: string
  canAddShares :: bool

text \<open>The value returned by \<^verbatim>\<open>getMessageAndActionForLiquidityProvider\<close>.\<close>

record MessageAndAction =
  res_title :: string
  res_message :: string
  res_action :: MigrationAction

text \<open>The \<^verbatim>\<open>useState\<close> slots; \<open>None\<close> is \<^verbatim>\<open>undefined\<close>.\<close>

record MigrationState =
  st_message :: "string option"
  st_title :: "string option"
  showMigration :: bool
  st_action :: "MigrationAction option"
  sharesLocked :: "bool option"

definition initialState :: MigrationState where
  "initialState =
     \<lparr>st_message = None, st_title = None, showMigration = False,
      st_action = None, sharesLocked = None\<rparr>"

definition truthy :: "string option \<Rightarrow> bool" where
  \<comment> \<open>A string value is falsy when it is \<^verbatim>\<open>null\<close>, \<^verbatim>\<open>undefined\<close> or empty.\<close>
  "truthy v = (case v of None \<Rightarrow> False | Some s \<Rightarrow> s \<noteq> [])"

definition coerceNumber :: "string \<Rightarrow> jsnum" where
  \<comment> \<open>\<^verbatim>\<open>isNaN(Number(x)) ? 0 : Number(x)\<close>, written out in the resolver and again in the effect.\<close>
  "coerceNumber x = (if isNaN (Number_js x) then Finite 0 else Number_js x)"

subsection \<open>Message helpers\<close>

text \<open>
  \<^verbatim>\<open>Web3.utils.fromWei\<close> belongs to the web3 library; it is a parameter \<open>fromWei\<close> of the
  model. The component applies it to \<^verbatim>\<open>lockedSharesV3\<close> or to \<^verbatim>\<open>'0'\<close>. The library accepts
  integer strings only; \<^verbatim>\<open>lockedSharesV3\<close> is the integer amount in the smallest unit, on
  which the call returns, so the parameter is a total function.
\<close>

definition getLockedSharesMessage :: "(string \<Rightarrow> string) \<Rightarrow> Hooks \<Rightarrow> string" where
  \<comment> \<open>\<^verbatim>\<open>poolShares\<close> here is the hook's string, not the number local to the resolver.\<close>
  "getLockedSharesMessage fromWei h =
     [CHR 0x0A, CHR 0x0A] @ ''You have '' @ poolShares h @ '' pool shares''
     @ [CHR 0x0A, CHR 0x0A] @ ''You have locked ''
     @ fromWei (if truthy (lockedSharesV3 h) then the (lockedSharesV3 h) else ''0'')
     @ '' shares ''"

definition getRemainingBlocksMessage :: "Hooks \<Rightarrow> string" where
  "getRemainingBlocksMessage h =
     [CHR 0x0A, CHR 0x0A] @ toString (minus_block (parseInt_js (deadline h)) (block h))
     @ '' blocks left for migration deadline''"

subsection \<open>The resolver\<close>

definition getMessageAndActionForLiquidityProvider ::
  "(string \<Rightarrow> string) \<Rightarrow> Content \<Rightarrow> Hooks \<Rightarrow>
   MigrationStatus \<Rightarrow> bool \<Rightarrow> bool \<Rightarrow> string \<Rightarrow> MessageAndAction" where
  "getMessageAndActionForLiquidityProvider fromWei content h status' thresholdMet' deadlinePassed' poolShares' =
     (let poolSharesN = coerceNumber poolShares';
          liquidityProviderContent = liquidityProvider content
      in
        if status' = COMPLETED then
          \<lparr>res_title = title (migrationComplete liquidityProviderContent),
           res_message = text (migrationComplete liquidityProviderContent),
           res_action = NONE\<rparr>
        else if status' = NOT_STARTED then
          \<lparr>res_title = title (migrationNotStarted liquidityProviderContent),
           res_message = text (migrationNotStarted liquidityProviderContent),
           res_action = NONE\<rparr>
        else if status' \<noteq> NOT_STARTED \<and> \<not> deadlinePassed' \<and> gt_zero poolSharesN \<and> canAddShares h then
          \<lparr>res_title = title (migrationStarted liquidityProviderContent),
           res_message = text (migrationStarted liquidityProviderContent)
             @ getLockedSharesMessage fromWei h @ getRemainingBlocksMessage h,
           res_action = LOCK_SHARES\<rparr>
        else if status' \<noteq> NOT_STARTED \<and> \<not> deadlinePassed' \<and> le_zero poolSharesN then
          \<lparr>res_title = title (poolSharesLocked liquidityProviderContent),
           res_message = text (poolSharesLocked liquidityProviderContent)
             @ getLockedSharesMessage fromWei h @ getRemainingBlocksMessage h,
           res_action = LOCK_SHARES\<rparr>
        else if status' \<noteq> NOT_STARTED \<and> (deadlinePassed' \<or> thresholdMet') \<and> \<not> canAddShares h then
          \<lparr>res_title = title (deadlineMetThresholdMet liquidityProviderContent),
           res_message = text (deadlineMetThresholdMet liquidityProviderContent)
             @ getLockedSharesMessage fromWei h,
           res_action = NONE\<rparr>
        else
          \<lparr>res_title = ''No migration information available'',
           res_message = [],
           res_action = NONE\<rparr>)"

definition resolve :: "(string \<Rightarrow> string) \<Rightarrow> Content \<Rightarrow> Hooks \<Rightarrow> MessageAndAction" where
  \<comment> \<open>The call made by \<^verbatim>\<open>switchMessageAndAction\<close> from the effect: every argument is the
      hook value of the same name.\<close>
  "resolve fromWei content h =
     getMessageAndActionForLiquidityProvider fromWei content h
       (status h) (thresholdMet h) (deadlinePassed h) (poolShares h)"

subsection \<open>The effect\<close>

function scanOwners :: "string \<Rightarrow> string list \<Rightarrow> nat \<Rightarrow> bool option \<Rightarrow> bool option" where
  \<comment> \<open>The \<^verbatim>\<open>for\<close> loop over \<^verbatim>\<open>poolShareOwners\<close> from index \<open>i\<close>; the last argument is the
      \<^verbatim>\<open>sharesLocked\<close> slot, which the loop only ever sets to \<^verbatim>\<open>true\<close>.\<close>
  "scanOwners a owners i sl =
     (if i < length owners
      then scanOwners a owners (i + 1) (if a = owners ! i then Some True else sl)
      else sl)"
  by pat_completeness auto
termination
  by (relation "measure (\<lambda>(a, owners, i, sl). length owners - i)") auto

declare scanOwners.simps [simp del]

definition hasAlreadyLocked :: "string \<Rightarrow> string list \<Rightarrow> bool" where
  \<comment> \<open>Whether the scan leaves \<^verbatim>\<open>sharesLocked\<close> set to \<^verbatim>\<open>true\<close>, starting from the slot's initial
      \<^verbatim>\<open>undefined\<close>.\<close>
  "hasAlreadyLocked participant shareOwners = (scanOwners participant shareOwners 0 None = Some True)"

definition setTitleMessageAction ::
  "string \<Rightarrow> string \<Rightarrow> MigrationAction \<Rightarrow> MigrationState \<Rightarrow> MigrationState" where
  "setTitleMessageAction t m a st = st\<lparr>st_title := Some t, st_message := Some m, st_action := Some a\<rparr>"

definition switchMessageAndAction ::
  "(string \<Rightarrow> string) \<Rightarrow> Content \<Rightarrow> Hooks \<Rightarrow>
   MigrationStatus \<Rightarrow> bool \<Rightarrow> bool \<Rightarrow> string \<Rightarrow> MigrationState \<Rightarrow> MigrationState" where
  "switchMessageAndAction fromWei content h status' thresholdMet' deadlinePassed' poolShares' st =
     (let r = getMessageAndActionForLiquidityProvider fromWei content h
                status' thresholdMet' deadlinePassed' poolShares'
      in setTitleMessageAction (res_title r) (res_message r) (res_action r) st)"

definition visibilityCheck :: "Hooks \<Rightarrow> bool" where
  \<comment> \<open>The condition of the \<^verbatim>\<open>if\<close> around \<^verbatim>\<open>setShowMigration(true)\<close>. The effect reaches it only
      with a participant: the test of \<^verbatim>\<open>accountId\<close> comes first, in \<open>migrationEffect\<close>.\<close>
  "visibilityCheck h =
     (let poolSharesNumber = coerceNumber (poolShares h)
      in gt_zero poolSharesNumber \<or> (truthy (lockedSharesV3 h) \<and> lockedSharesV3 h \<noteq> Some ''0''))"

definition migrationEffect ::
  "(string \<Rightarrow> string) \<Rightarrow> Content \<Rightarrow> Hooks \<Rightarrow> MigrationState \<Rightarrow> MigrationState" where
  \<comment> \<open>One run of the \<^verbatim>\<open>useEffect\<close> callback on the state slots.\<close>
  "migrationEffect fromWei content h st =
     (if \<not> truthy (accountId h) then st
      else
        let st1 = (if visibilityCheck h then st\<lparr>showMigration := True\<rparr> else st);
            st2 = (case poolShareOwners h of
                     None \<Rightarrow> st1
                   | Some owners \<Rightarrow>
                       st1\<lparr>sharesLocked := scanOwners (the (accountId h)) owners 0 (sharesLocked st1)\<rparr>)
        in switchMessageAndAction fromWei content h
             (status h) (thresholdMet h) (deadlinePassed h) (poolShares h) st2)"

definition migrationEffects ::
  "(string \<Rightarrow> string) \<Rightarrow> Content \<Rightarrow> Hooks list \<Rightarrow> MigrationState \<Rightarrow> MigrationState" where
  \<comment> \<open>The effect run once for each of a sequence of renderings, in order.\<close>
  "migrationEffects fromWei content hs st = foldl (\<lambda>s h. migrationEffect fromWei content h s) st hs"

definition shouldShow :: "(string \<Rightarrow> string) \<Rightarrow> Content \<Rightarrow> Hooks \<Rightarrow> bool" where
  \<comment> \<open>The Visibility Gate: whether the feature is shown once the effect has run on a
      component in its initial state, where \<^verbatim>\<open>showMigration\<close> is false.\<close>
  "shouldShow fromWei content h = showMigration (migrationEffect fromWei content h initialState)"

subsection \<open>Example inputs\<close>

definition exampleContent :: Content where
  "exampleContent =
     \<lparr>liquidityProvider =
        \<lparr>migrationNotStarted = \<lparr>title = ''Not started'', text = ''Migration has not started.''\<rparr>,
         migrationStarted = \<lparr>title = ''Started'', text = ''Lock your shares.''\<rparr>,
         poolSharesLocked = \<lparr>title = ''Locked'', text = ''Your shares are locked.''\<rparr>,
         deadlineMetThresholdMet = \<lparr>title = ''Deadline met'', text = ''Migration will proceed.''\<rparr>,
         migrationComplete = \<lparr>title = ''Complete'', text = ''Migration is complete.''\<rparr>\<rparr>\<rparr>"

definition exampleFromWei :: "string \<Rightarrow> string" where
  \<comment> \<open>Wherever an example reaches the library function, \<^verbatim>\<open>lockedSharesV3\<close> is absent and the
      argument is \<^verbatim>\<open>'0'\<close>, which the library renders as \<^verbatim>\<open>'0'\<close>.\<close>
  "exampleFromWei s = ''0''"

definition exampleHooks :: Hooks where
  "exampleHooks =
     \<lparr>accountId = Some ''0xA'', block = 150, status = STARTED, thresholdMet = False,
      deadlinePassed = False, poolShares = ''0'', poolShareOwners = None,
      lockedSharesV3 = None, deadline = ''100'', canAddShares = True\<rparr>"

section \<open>Evaluation of the built-ins on the strings of the examples\<close>

lemmas number_defs =
  Number_js_def trim_def isWhiteSpace_def NonDecimalIntegerLiteral_def StrDecimalLiteral_def
  StrUnsignedDecimalLiteral_def isDigit_def digitVal_def digitsValue_def toDoubleRange_def
  ExponentPart_def unsignedInteger_def isRadixDigit_def Let_def

lemma coerceNumber_0: "coerceNumber ''0'' = Finite 0"
  by (simp add: coerceNumber_def number_defs)

lemma coerceNumber_3: "coerceNumber ''3'' = Finite 3"
  by (simp add: coerceNumber_def number_defs)

lemma coerceNumber_5: "coerceNumber ''5'' = Finite 5"
  by (simp add: coerceNumber_def number_defs)

lemma coerceNumber_nan: "coerceNumber ''not-a-number'' = Finite 0"
  by (simp add: coerceNumber_def number_defs)

lemma roundToDouble_safe: "\<bar>n\<bar> < 2 ^ 53 \<Longrightarrow> roundToDouble n = IntVal n"
  by (simp add: roundToDouble_def)

lemma toString_safe: "\<bar>i\<bar> < 2 ^ 53 \<Longrightarrow> toString (IntVal i) = show_int i"
  by simp

lemma parseInt_100: "parseInt_js ''100'' = IntVal 100"
  by (simp add: parseInt_js_def trimStart_def number_defs roundToDouble_safe)

lemma parseInt_abc: "parseInt_js ''abc'' = IntNaN"
  by (simp add: parseInt_js_def trimStart_def number_defs)

lemma show_int_minus_50: "show_int (- 50) = ''-50''"
  by (simp add: show_int_def)

lemma lockedShares_example:
  "lockedSharesV3 h = None \<Longrightarrow>
   getLockedSharesMessage exampleFromWei h =
     [CHR 0x0A, CHR 0x0A] @ ''You have '' @ poolShares h @ '' pool shares''
     @ [CHR 0x0A, CHR 0x0A] @ ''You have locked 0 shares ''"
  by (simp add: getLockedSharesMessage_def truthy_def exampleFromWei_def)

lemma remainingBlocks_example:
  "deadline h = ''100'' \<Longrightarrow> block h = 150 \<Longrightarrow>
   getRemainingBlocksMessage h = [CHR 0x0A, CHR 0x0A] @ ''-50 blocks left for migration deadline''"
  by (simp add: getRemainingBlocksMessage_def parseInt_100 roundToDouble_safe show_int_minus_50)

lemmas resolver_defs = resolve_def getMessageAndActionForLiquidityProvider_def Let_def

lemma radix10_digit: "isRadixDigit 10 c = isDigit c"
  by (auto simp: isRadixDigit_def digitVal_def isDigit_def Let_def)

lemma digit_not_space: "isDigit c \<Longrightarrow> \<not> isWhiteSpace c"
  by (auto simp: isDigit_def isWhiteSpace_def)

lemma digit_not_sign: "isDigit c \<Longrightarrow> c \<noteq> CHR ''+'' \<and> c \<noteq> CHR ''-''"
  by (auto simp: isDigit_def)

lemma isDigit_zero: "isDigit (CHR ''0'')"
  by (simp add: isDigit_def)

lemma parseInt_no_digit:
  assumes "\<forall>c \<in> set s. \<not> isDigit c"
  shows "parseInt_js s = IntNaN"
proof -
  define S0 where "S0 = trimStart s"
  define S1 where "S1 = (if S0 \<noteq> [] \<and> (hd S0 = CHR ''+'' \<or> hd S0 = CHR ''-'') then tl S0 else S0)"
  have "set S0 \<subseteq> set s"
    by (simp add: S0_def trimStart_def set_dropWhileD subsetI)
  moreover have "set S1 \<subseteq> set S0"
    by (cases S0) (auto simp: S1_def)
  ultimately have nodigit: "\<forall>c \<in> set S1. \<not> isDigit c"
    using assms by blast
  have nothex: "\<not> (case S1 of c0 # p # x \<Rightarrow> c0 = CHR ''0'' \<and> (p = CHR ''x'' \<or> p = CHR ''X'') | _ \<Rightarrow> False)"
    using nodigit isDigit_zero by (auto split: list.splits)
  have "takeWhile (isRadixDigit 10) S1 = []"
    using nodigit by (cases S1) (auto simp: radix10_digit)
  moreover have "parseInt_js s =
      (let hex = (case S1 of c0 # p # x \<Rightarrow> c0 = CHR ''0'' \<and> (p = CHR ''x'' \<or> p = CHR ''X'') | _ \<Rightarrow> False);
           R = (if hex then 16 else 10);
           S2 = (if hex then drop 2 S1 else S1);
           Z = takeWhile (isRadixDigit R) S2
       in if Z = [] then IntNaN
          else roundToDouble ((if S0 \<noteq> [] \<and> hd S0 = CHR ''-'' then - 1 else 1) * int (digitsValue R Z)))"
    unfolding parseInt_js_def S1_def S0_def Let_def by (rule refl)
  ultimately show ?thesis
    using nothex by (simp add: Let_def)
qed

lemma parseInt_leading_digits:
  assumes ds: "ds \<noteq> []" "list_all isDigit ds"
    and rest: "rest = [] \<or> \<not> isDigit (hd rest)"
    and nothex: "\<not> (ds = ''0'' \<and> rest \<noteq> [] \<and> (hd rest = CHR ''x'' \<or> hd rest = CHR ''X''))"
  shows "parseInt_js (ds @ rest) = roundToDouble (int (digitsValue 10 ds))"
proof -
  obtain d ds' where dsC: "ds = d # ds'"
    using ds(1) by (cases ds) auto
  have d: "isDigit d" and ds': "list_all isDigit ds'"
    using ds(2) dsC by auto
  have S0: "trimStart (ds @ rest) = ds @ rest"
    using d by (simp add: trimStart_def dsC digit_not_space)
  have sign: "hd (ds @ rest) \<noteq> CHR ''+'' \<and> hd (ds @ rest) \<noteq> CHR ''-''"
    using d digit_not_sign by (simp add: dsC)
  have hex: "\<not> (case ds @ rest of c0 # p # x \<Rightarrow> c0 = CHR ''0'' \<and> (p = CHR ''x'' \<or> p = CHR ''X'') | _ \<Rightarrow> False)"
  proof (cases ds')
    case Nil
    then show ?thesis
      using nothex dsC by (cases rest) auto
  next
    case (Cons e es)
    then have "isDigit e" using ds' by simp
    then have "e \<noteq> CHR ''x'' \<and> e \<noteq> CHR ''X''" by (auto simp: isDigit_def)
    then show ?thesis by (simp add: dsC Cons)
  qed
  have all: "\<forall>c \<in> set ds. isRadixDigit 10 c"
    using ds(2) by (simp add: radix10_digit list_all_iff)
  have Z: "takeWhile (isRadixDigit 10) (ds @ rest) = ds"
  proof (cases rest)
    case Nil
    then show ?thesis using all by simp
  next
    case (Cons r rs)
    then have "\<not> isRadixDigit 10 r" using rest by (simp add: radix10_digit)
    then show ?thesis using all Cons by (simp add: takeWhile_tail)
  qed
  show ?thesis
    using S0 sign hex Z ds(1) by (simp add: parseInt_js_def Let_def)
qed

lemma scanOwners_member:
  "scanOwners a owners i sl = (if a \<in> set (drop i owners) then Some True else sl)"
proof (induction a owners i sl rule: scanOwners.induct)
  case (1 a owners i sl)
  show ?case
  proof (cases "i < length owners")
    case True
    then have split: "drop i owners = owners ! i # drop (Suc i) owners"
      by (simp add: Cons_nth_drop_Suc)
    have "scanOwners a owners i sl =
        scanOwners a owners (i + 1) (if a = owners ! i then Some True else sl)"
      using True by (subst scanOwners.simps) simp
    also have "\<dots> = (if a \<in> set (drop (i + 1) owners) then Some True
                     else (if a = owners ! i then Some True else sl))"
      using "1.IH" [OF True] .
    also have "\<dots> = (if a \<in> set (drop i owners) then Some True else sl)"
      by (auto simp: split)
    finally show ?thesis .
  next
    case False
    then show ?thesis by (subst scanOwners.simps) simp
  qed
qed

lemma effect_keeps_shown:
  "showMigration st \<Longrightarrow> showMigration (migrationEffect fromWei content h st)"
  by (simp add: migrationEffect_def switchMessageAndAction_def setTitleMessageAction_def Let_def
      split: option.splits)

lemma effects_keep_shown:
  "showMigration st \<Longrightarrow> showMigration (migrationEffects fromWei content hs st)"
  unfolding migrationEffects_def
  by (induction hs arbitrary: st) (simp_all add: effect_keeps_shown)

lemma effect_keeps_hidden:
  "\<not> visibilityCheck h \<Longrightarrow> \<not> showMigration st \<Longrightarrow> \<not> showMigration (migrationEffect fromWei content h st)"
  by (simp add: migrationEffect_def switchMessageAndAction_def setTitleMessageAction_def Let_def
      split: option.splits)

lemma effect_sets_shown:
  "truthy (accountId h) \<Longrightarrow> visibilityCheck h \<Longrightarrow> showMigration (migrationEffect fromWei content h st)"
  by (simp add: migrationEffect_def switchMessageAndAction_def setTitleMessageAction_def Let_def
      split: option.splits)

section \<open>Properties of the resolver\<close>

text \<open>
  Claim C6. For every snapshot whose status is \<^verbatim>\<open>COMPLETED\<close> and every catalog, the
  resolver returns the \<^verbatim>\<open>migrationComplete\<close> title, the \<^verbatim>\<open>migrationComplete\<close> text as
  the message and the action \<^verbatim>\<open>NONE\<close>, whatever the other fields are.
\<close>

theorem completed_gives_migrationComplete:
  assumes "status h = COMPLETED"
  shows "resolve fromWei content h =
           \<lparr>res_title = title (migrationComplete (liquidityProvider content)),
            res_message = text (migrationComplete (liquidityProvider content)),
            res_action = NONE\<rparr>"
  using assms by (simp add: resolve_def getMessageAndActionForLiquidityProvider_def Let_def)

text \<open>The theorem at a completed migration whose other fields would select rule 3.\<close>

theorem completed_gives_migrationComplete_witness:
  "status (exampleHooks\<lparr>status := COMPLETED, poolShares := ''3''\<rparr>) = COMPLETED
   \<and> resolve exampleFromWei exampleContent (exampleHooks\<lparr>status := COMPLETED, poolShares := ''3''\<rparr>) =
       \<lparr>res_title = ''Complete'', res_message = ''Migration is complete.'', res_action = NONE\<rparr>"
proof -
  have h: "status (exampleHooks\<lparr>status := COMPLETED, poolShares := ''3''\<rparr>) = COMPLETED"
    by simp
  have "resolve exampleFromWei exampleContent (exampleHooks\<lparr>status := COMPLETED, poolShares := ''3''\<rparr>) =
          \<lparr>res_title = title (migrationComplete (liquidityProvider exampleContent)),
           res_message = text (migrationComplete (liquidityProvider exampleContent)),
           res_action = NONE\<rparr>"
    by (rule completed_gives_migrationComplete [OF h])
  then show ?thesis
    using h by (simp add: exampleContent_def)
qed


text \<open>
  Claim C1, as stated: the resolver returns \<^verbatim>\<open>LOCK_SHARES\<close> only when the status is
  not \<^verbatim>\<open>NOT_STARTED\<close>, the deadline has not passed and \<^verbatim>\<open>canAddShares\<close> is true. The
  fourth rule tests no \<^verbatim>\<open>canAddShares\<close>: a started migration before the deadline with
  \<^verbatim>\<open>poolShares = "0"\<close> and \<^verbatim>\<open>canAddShares = false\<close> yields \<^verbatim>\<open>LOCK_SHARES\<close>.
\<close>

theorem lock_shares_without_canAddShares:
  "res_action (resolve exampleFromWei exampleContent (exampleHooks\<lparr>canAddShares := False\<rparr>)) = LOCK_SHARES
   \<and> status (exampleHooks\<lparr>canAddShares := False\<rparr>) = STARTED
   \<and> deadlinePassed (exampleHooks\<lparr>canAddShares := False\<rparr>) = False
   \<and> poolShares (exampleHooks\<lparr>canAddShares := False\<rparr>) = ''0''
   \<and> canAddShares (exampleHooks\<lparr>canAddShares := False\<rparr>) = False"
  by (simp add: resolver_defs exampleHooks_def coerceNumber_0)

text \<open>
  Claim C1, amended: the resolver returns \<^verbatim>\<open>LOCK_SHARES\<close> only when the status is neither
  \<^verbatim>\<open>NOT_STARTED\<close> nor \<^verbatim>\<open>COMPLETED\<close>, the deadline has not passed, and either
  \<^verbatim>\<open>canAddShares\<close> is true or the coerced \<^verbatim>\<open>poolShares\<close> is at most 0. In particular no
  input with the deadline passed yields \<^verbatim>\<open>LOCK_SHARES\<close>.
\<close>

theorem lock_shares_only_when:
  assumes "res_action (resolve fromWei content h) = LOCK_SHARES"
  shows "status h \<noteq> NOT_STARTED \<and> status h \<noteq> COMPLETED \<and> \<not> deadlinePassed h
         \<and> (canAddShares h \<or> le_zero (coerceNumber (poolShares h)))"
proof -
  let ?n = "coerceNumber (poolShares h)"
  have not_rule12: "status h \<noteq> COMPLETED \<and> status h \<noteq> NOT_STARTED"
    using assms by (auto simp: resolver_defs split: if_splits)
  have lock: "(\<not> deadlinePassed h \<and> gt_zero ?n \<and> canAddShares h) \<or> (\<not> deadlinePassed h \<and> le_zero ?n)"
    using assms not_rule12 by (auto simp: resolver_defs split: if_splits)
  from not_rule12 lock show ?thesis by blast
qed

theorem lock_shares_only_when_witness:
  "res_action (resolve exampleFromWei exampleContent (exampleHooks\<lparr>poolShares := ''3''\<rparr>)) = LOCK_SHARES
   \<and> status (exampleHooks\<lparr>poolShares := ''3''\<rparr>) \<noteq> NOT_STARTED
   \<and> status (exampleHooks\<lparr>poolShares := ''3''\<rparr>) \<noteq> COMPLETED
   \<and> \<not> deadlinePassed (exampleHooks\<lparr>poolShares := ''3''\<rparr>)
   \<and> (canAddShares (exampleHooks\<lparr>poolShares := ''3''\<rparr>)
       \<or> le_zero (coerceNumber (poolShares (exampleHooks\<lparr>poolShares := ''3''\<rparr>))))"
proof -
  have h: "res_action (resolve exampleFromWei exampleContent (exampleHooks\<lparr>poolShares := ''3''\<rparr>)) = LOCK_SHARES"
    by (simp add: resolver_defs exampleHooks_def coerceNumber_3)
  from h lock_shares_only_when [OF h] show ?thesis by (rule conjI)
qed

text \<open>
  Claim C3, as stated: for a started migration with the deadline passed, the threshold
  met, \<^verbatim>\<open>poolShares = "3"\<close> and \<^verbatim>\<open>canAddShares = true\<close> the resolver returns rule 3's
  outcome with \<^verbatim>\<open>LOCK_SHARES\<close>. Rule 3 requires the deadline not to have passed; the
  resolver returns the fallback with the action \<^verbatim>\<open>NONE\<close>.
\<close>

theorem deadline_passed_canAddShares_not_rule3:
  "res_action (resolve exampleFromWei exampleContent
      (exampleHooks\<lparr>thresholdMet := True, deadlinePassed := True, poolShares := ''3''\<rparr>)) = NONE
   \<and> res_title (resolve exampleFromWei exampleContent
      (exampleHooks\<lparr>thresholdMet := True, deadlinePassed := True, poolShares := ''3''\<rparr>))
     = ''No migration information available''
   \<and> title (migrationStarted (liquidityProvider exampleContent)) = ''Started''"
  by (simp add: resolver_defs exampleHooks_def exampleContent_def)

text \<open>
  Claim C3, amended: for a started migration with the deadline passed, the threshold met,
  \<^verbatim>\<open>poolShares = "3"\<close> and \<^verbatim>\<open>canAddShares = true\<close>, no rule matches: rules 3 and 4 need
  the deadline not passed, rule 5 needs \<^verbatim>\<open>canAddShares\<close> false. The resolver returns the
  fallback: the title "No migration information available", an empty message and the
  action \<^verbatim>\<open>NONE\<close>.
\<close>

theorem deadline_passed_canAddShares_fallback:
  assumes "status h = STARTED" and "deadlinePassed h" and "thresholdMet h"
    and "poolShares h = ''3''" and "canAddShares h"
  shows "resolve fromWei content h =
           \<lparr>res_title = ''No migration information available'', res_message = [], res_action = NONE\<rparr>"
  using assms by (simp add: resolver_defs)

theorem deadline_passed_canAddShares_fallback_witness:
  "status (exampleHooks\<lparr>thresholdMet := True, deadlinePassed := True, poolShares := ''3''\<rparr>) = STARTED
   \<and> deadlinePassed (exampleHooks\<lparr>thresholdMet := True, deadlinePassed := True, poolShares := ''3''\<rparr>)
   \<and> thresholdMet (exampleHooks\<lparr>thresholdMet := True, deadlinePassed := True, poolShares := ''3''\<rparr>)
   \<and> poolShares (exampleHooks\<lparr>thresholdMet := True, deadlinePassed := True, poolShares := ''3''\<rparr>) = ''3''
   \<and> canAddShares (exampleHooks\<lparr>thresholdMet := True, deadlinePassed := True, poolShares := ''3''\<rparr>)
   \<and> resolve exampleFromWei exampleContent
        (exampleHooks\<lparr>thresholdMet := True, deadlinePassed := True, poolShares := ''3''\<rparr>) =
       \<lparr>res_title = ''No migration information available'', res_message = [], res_action = NONE\<rparr>"
proof -
  let ?h = "exampleHooks\<lparr>thresholdMet := True, deadlinePassed := True, poolShares := ''3''\<rparr>"
  have h1: "status ?h = STARTED" and h2: "deadlinePassed ?h" and h3: "thresholdMet ?h"
    and h4: "poolShares ?h = ''3''" and h5: "canAddShares ?h"
    by (simp_all add: exampleHooks_def)
  from h1 h2 h3 h4 h5 deadline_passed_canAddShares_fallback [OF h1 h2 h3 h4 h5]
  show ?thesis by blast
qed

text \<open>
  Claim C7. For every snapshot of a started migration before the deadline, with coerced
  \<^verbatim>\<open>poolShares\<close> above 0 and \<^verbatim>\<open>canAddShares\<close> true, the resolver returns the action
  \<^verbatim>\<open>LOCK_SHARES\<close> with the \<^verbatim>\<open>migrationStarted\<close> title, and the message is the
  \<^verbatim>\<open>migrationStarted\<close> text followed by the locked-shares suffix and then the
  remaining-blocks suffix.
\<close>

theorem started_open_positive_gives_lock_shares:
  assumes "status h = STARTED" and "\<not> deadlinePassed h"
    and "gt_zero (coerceNumber (poolShares h))" and "canAddShares h"
  shows "resolve fromWei content h =
           \<lparr>res_title = title (migrationStarted (liquidityProvider content)),
            res_message = text (migrationStarted (liquidityProvider content))
              @ getLockedSharesMessage fromWei h @ getRemainingBlocksMessage h,
            res_action = LOCK_SHARES\<rparr>"
  using assms by (simp add: resolver_defs)

theorem started_open_positive_gives_lock_shares_witness:
  "status (exampleHooks\<lparr>poolShares := ''3''\<rparr>) = STARTED
   \<and> \<not> deadlinePassed (exampleHooks\<lparr>poolShares := ''3''\<rparr>)
   \<and> gt_zero (coerceNumber (poolShares (exampleHooks\<lparr>poolShares := ''3''\<rparr>)))
   \<and> canAddShares (exampleHooks\<lparr>poolShares := ''3''\<rparr>)
   \<and> resolve exampleFromWei exampleContent (exampleHooks\<lparr>poolShares := ''3''\<rparr>) =
       \<lparr>res_title = ''Started'',
        res_message = ''Lock your shares.\<newline>\<newline>You have 3 pool shares\<newline>\<newline>You have locked 0 shares \<newline>\<newline>-50 blocks left for migration deadline'',
        res_action = LOCK_SHARES\<rparr>"
proof -
  let ?h = "exampleHooks\<lparr>poolShares := ''3''\<rparr>"
  have h1: "status ?h = STARTED" and h2: "\<not> deadlinePassed ?h" and h4: "canAddShares ?h"
    by (simp_all add: exampleHooks_def)
  have h3: "gt_zero (coerceNumber (poolShares ?h))"
    by (simp add: coerceNumber_3)
  have locked: "getLockedSharesMessage exampleFromWei ?h =
      ''\<newline>\<newline>You have 3 pool shares\<newline>\<newline>You have locked 0 shares ''"
    by (simp add: lockedShares_example exampleHooks_def)
  have remaining: "getRemainingBlocksMessage ?h = ''\<newline>\<newline>-50 blocks left for migration deadline''"
    by (simp add: remainingBlocks_example exampleHooks_def)
  have "resolve exampleFromWei exampleContent ?h =
          \<lparr>res_title = ''Started'',
           res_message = ''Lock your shares.\<newline>\<newline>You have 3 pool shares\<newline>\<newline>You have locked 0 shares \<newline>\<newline>-50 blocks left for migration deadline'',
           res_action = LOCK_SHARES\<rparr>"
    using started_open_positive_gives_lock_shares [OF h1 h2 h3 h4, of exampleFromWei exampleContent]
    by (simp add: locked remaining exampleContent_def)
  with h1 h2 h3 h4 show ?thesis by blast
qed


text \<open>
  Claim C4, as stated: with \<^verbatim>\<open>poolShares = "not-a-number"\<close> the resolver returns exactly
  the result it returns with \<^verbatim>\<open>poolShares = "0"\<close>, the locked-shares suffix rendering the
  coerced number. The suffix is built from the hook's string, not from the number local
  to the resolver: before the deadline of a started migration the two messages differ.
\<close>

theorem not_a_number_message_differs:
  "res_message (resolve exampleFromWei exampleContent (exampleHooks\<lparr>poolShares := ''not-a-number''\<rparr>)) =
     ''Your shares are locked.\<newline>\<newline>You have not-a-number pool shares\<newline>\<newline>You have locked 0 shares \<newline>\<newline>-50 blocks left for migration deadline''
   \<and> res_message (resolve exampleFromWei exampleContent (exampleHooks\<lparr>poolShares := ''0''\<rparr>)) =
     ''Your shares are locked.\<newline>\<newline>You have 0 pool shares\<newline>\<newline>You have locked 0 shares \<newline>\<newline>-50 blocks left for migration deadline''"
  by (simp add: resolver_defs coerceNumber_0 coerceNumber_nan lockedShares_example
      remainingBlocks_example exampleHooks_def exampleContent_def)

text \<open>
  Claim C4, amended: for every snapshot and catalog, the resolver with
  \<^verbatim>\<open>poolShares = "not-a-number"\<close> decides as it does with \<^verbatim>\<open>poolShares = "0"\<close>: it returns
  the same title and the same action, and its result is the one computed for the argument
  \<^verbatim>\<open>"0"\<close> while the hook still holds the raw string. The messages differ exactly when the
  selected rule renders the locked-shares suffix, that is when the migration is started
  and the deadline has not passed or \<^verbatim>\<open>canAddShares\<close> is false; there the suffix renders
  the raw string \<^verbatim>\<open>not-a-number\<close>.
\<close>

theorem not_a_number_decides_like_zero:
  "res_title (resolve fromWei content (h\<lparr>poolShares := ''not-a-number''\<rparr>)) =
     res_title (resolve fromWei content (h\<lparr>poolShares := ''0''\<rparr>))
   \<and> res_action (resolve fromWei content (h\<lparr>poolShares := ''not-a-number''\<rparr>)) =
     res_action (resolve fromWei content (h\<lparr>poolShares := ''0''\<rparr>))
   \<and> resolve fromWei content (h\<lparr>poolShares := ''not-a-number''\<rparr>) =
     getMessageAndActionForLiquidityProvider fromWei content (h\<lparr>poolShares := ''not-a-number''\<rparr>)
       (status h) (thresholdMet h) (deadlinePassed h) ''0''
   \<and> ((res_message (resolve fromWei content (h\<lparr>poolShares := ''not-a-number''\<rparr>)) \<noteq>
        res_message (resolve fromWei content (h\<lparr>poolShares := ''0''\<rparr>)))
       = (status h = STARTED \<and> \<not> (deadlinePassed h \<and> canAddShares h)))"
proof -
  let ?N = "h\<lparr>poolShares := ''not-a-number''\<rparr>" and ?Z = "h\<lparr>poolShares := ''0''\<rparr>"
  have rem: "getRemainingBlocksMessage ?N = getRemainingBlocksMessage ?Z"
    by (simp add: getRemainingBlocksMessage_def)
  have t: "res_title (resolve fromWei content ?N) = res_title (resolve fromWei content ?Z)"
    by (simp add: resolver_defs coerceNumber_0 coerceNumber_nan)
  have a: "res_action (resolve fromWei content ?N) = res_action (resolve fromWei content ?Z)"
    by (simp add: resolver_defs coerceNumber_0 coerceNumber_nan)
  have d: "resolve fromWei content ?N =
      getMessageAndActionForLiquidityProvider fromWei content ?N
        (status h) (thresholdMet h) (deadlinePassed h) ''0''"
    by (simp add: resolver_defs coerceNumber_0 coerceNumber_nan)
  have m: "(res_message (resolve fromWei content ?N) \<noteq> res_message (resolve fromWei content ?Z))
      = (status h = STARTED \<and> \<not> (deadlinePassed h \<and> canAddShares h))"
    by (cases "status h")
       (auto simp: resolver_defs coerceNumber_0 coerceNumber_nan rem getLockedSharesMessage_def)
  from t a d m show ?thesis by blast
qed

text \<open>
  Claim C5, as stated: a malformed \<^verbatim>\<open>deadlineBlock\<close> is coerced to 0, so the
  remaining-blocks suffix is 0 minus \<^verbatim>\<open>currentBlock\<close> and never renders NaN. The deadline
  is read with \<^verbatim>\<open>parseInt\<close> and nothing tests the result: with \<^verbatim>\<open>deadline = "abc"\<close> and
  \<^verbatim>\<open>block = 150\<close> the message ends in "NaN blocks left for migration deadline", not in
  "-150 blocks left for migration deadline".
\<close>

theorem malformed_deadline_example:
  "res_message (resolve exampleFromWei exampleContent (exampleHooks\<lparr>poolShares := ''3'', deadline := ''abc''\<rparr>)) =
     ''Lock your shares.\<newline>\<newline>You have 3 pool shares\<newline>\<newline>You have locked 0 shares \<newline>\<newline>NaN blocks left for migration deadline''
   \<and> block (exampleHooks\<lparr>poolShares := ''3'', deadline := ''abc''\<rparr>) = 150"
  by (simp add: resolver_defs coerceNumber_3 lockedShares_example getRemainingBlocksMessage_def
      parseInt_abc exampleHooks_def exampleContent_def)


text \<open>
  Claim C5, amended: a malformed \<^verbatim>\<open>deadlineBlock\<close> raises no error in the remaining-blocks
  suffix and is not coerced to 0; it is read with \<^verbatim>\<open>parseInt\<close>. When the string holds no decimal digit the difference is
  NaN and the suffix renders "NaN blocks left for migration deadline", whatever
  \<^verbatim>\<open>currentBlock\<close> is. When the string starts with decimal digits followed by anything that
  is no digit (and is not a \<^verbatim>\<open>0x\<close> literal), the leading integer is taken and the suffix
  renders that integer minus \<^verbatim>\<open>currentBlock\<close>, for integers in the safe range.
\<close>

theorem malformed_deadline_not_coerced:
  "(\<not> list_ex isDigit (deadline h) \<longrightarrow>
      getRemainingBlocksMessage h = ''\<newline>\<newline>NaN blocks left for migration deadline'')
   \<and> (deadline h = ds @ rest \<and> ds \<noteq> [] \<and> list_all isDigit ds
        \<and> rest \<noteq> [] \<and> \<not> isDigit (hd rest)
        \<and> \<not> (ds = ''0'' \<and> (hd rest = CHR ''x'' \<or> hd rest = CHR ''X''))
        \<and> int (digitsValue 10 ds) < 2 ^ 53 \<and> \<bar>block h\<bar> < 2 ^ 53
        \<and> \<bar>int (digitsValue 10 ds) - block h\<bar> < 2 ^ 53 \<longrightarrow>
      getRemainingBlocksMessage h =
        ''\<newline>\<newline>'' @ show_int (int (digitsValue 10 ds) - block h)
        @ '' blocks left for migration deadline'')"
proof (intro conjI impI)
  assume "\<not> list_ex isDigit (deadline h)"
  then have "\<forall>c \<in> set (deadline h). \<not> isDigit c"
    by (simp add: list_ex_iff)
  then have "parseInt_js (deadline h) = IntNaN"
    by (rule parseInt_no_digit)
  then show "getRemainingBlocksMessage h = ''\<newline>\<newline>NaN blocks left for migration deadline''"
    by (simp add: getRemainingBlocksMessage_def)
next
  assume a: "deadline h = ds @ rest \<and> ds \<noteq> [] \<and> list_all isDigit ds
        \<and> rest \<noteq> [] \<and> \<not> isDigit (hd rest)
        \<and> \<not> (ds = ''0'' \<and> (hd rest = CHR ''x'' \<or> hd rest = CHR ''X''))
        \<and> int (digitsValue 10 ds) < 2 ^ 53 \<and> \<bar>block h\<bar> < 2 ^ 53
        \<and> \<bar>int (digitsValue 10 ds) - block h\<bar> < 2 ^ 53"
  then have "parseInt_js (ds @ rest) = roundToDouble (int (digitsValue 10 ds))"
    by (intro parseInt_leading_digits) auto
  also have "\<dots> = IntVal (int (digitsValue 10 ds))"
    using a by (intro roundToDouble_safe) simp
  finally have parsed: "parseInt_js (deadline h) = IntVal (int (digitsValue 10 ds))"
    using a by simp
  have "minus_block (IntVal (int (digitsValue 10 ds))) (block h) =
      IntVal (int (digitsValue 10 ds) - block h)"
    using a by (simp add: roundToDouble_safe)
  moreover have "toString (IntVal (int (digitsValue 10 ds) - block h)) =
      show_int (int (digitsValue 10 ds) - block h)"
    using a by (intro toString_safe) simp
  ultimately show "getRemainingBlocksMessage h =
        ''\<newline>\<newline>'' @ show_int (int (digitsValue 10 ds) - block h)
        @ '' blocks left for migration deadline''"
    using parsed by (simp add: getRemainingBlocksMessage_def del: toString.simps minus_block.simps)
qed

text \<open>
  The theorem at \<^verbatim>\<open>deadline = "abc"\<close> and at \<^verbatim>\<open>deadline = "12abc"\<close>, both at block 150.
\<close>

theorem malformed_deadline_not_coerced_witness:
  "\<not> list_ex isDigit (deadline (exampleHooks\<lparr>deadline := ''abc''\<rparr>))
   \<and> getRemainingBlocksMessage (exampleHooks\<lparr>deadline := ''abc''\<rparr>) =
       ''\<newline>\<newline>NaN blocks left for migration deadline''
   \<and> deadline (exampleHooks\<lparr>deadline := ''12abc''\<rparr>) = ''12'' @ ''abc''
   \<and> list_all isDigit ''12'' \<and> \<not> isDigit (hd ''abc'')
   \<and> int (digitsValue 10 ''12'') = 12
   \<and> block (exampleHooks\<lparr>deadline := ''12abc''\<rparr>) = 150
   \<and> getRemainingBlocksMessage (exampleHooks\<lparr>deadline := ''12abc''\<rparr>) =
       ''\<newline>\<newline>-138 blocks left for migration deadline''"
proof -
  let ?A = "exampleHooks\<lparr>deadline := ''abc''\<rparr>" and ?B = "exampleHooks\<lparr>deadline := ''12abc''\<rparr>"
  have a: "\<not> list_ex isDigit (deadline ?A)"
    by (simp add: isDigit_def)
  have v: "int (digitsValue 10 ''12'') = 12"
    by (simp add: digitsValue_def digitVal_def)
  have b: "deadline ?B = ''12'' @ ''abc''" "list_all isDigit ''12''" "\<not> isDigit (hd ''abc'')"
    "block ?B = 150"
    by (simp_all add: isDigit_def exampleHooks_def)
  have hyp: "deadline ?B = ''12'' @ ''abc'' \<and> ''12'' \<noteq> [] \<and> list_all isDigit ''12''
        \<and> ''abc'' \<noteq> [] \<and> \<not> isDigit (hd ''abc'')
        \<and> \<not> (''12'' = ''0'' \<and> (hd ''abc'' = CHR ''x'' \<or> hd ''abc'' = CHR ''X''))
        \<and> int (digitsValue 10 ''12'') < 2 ^ 53 \<and> \<bar>block ?B\<bar> < 2 ^ 53
        \<and> \<bar>int (digitsValue 10 ''12'') - block ?B\<bar> < 2 ^ 53"
    using b by (simp add: v)
  have ra: "getRemainingBlocksMessage ?A = ''\<newline>\<newline>NaN blocks left for migration deadline''"
    using malformed_deadline_not_coerced [of ?A "[]" "[]"] a by blast
  have "getRemainingBlocksMessage ?B =
        ''\<newline>\<newline>'' @ show_int (int (digitsValue 10 ''12'') - block ?B)
        @ '' blocks left for migration deadline''"
    using malformed_deadline_not_coerced [of ?B "''12''" "''abc''"] hyp by blast
  then have rb: "getRemainingBlocksMessage ?B = ''\<newline>\<newline>-138 blocks left for migration deadline''"
    by (simp add: v b(4) show_int_def)
  from a ra b v rb show ?thesis by blast
qed

section \<open>Properties of the effect\<close>

text \<open>
  Claim C2, as stated: for every snapshot the Visibility Gate is true if and only if the
  coerced \<^verbatim>\<open>poolShares\<close> is above 0 or \<^verbatim>\<open>lockedSharesV3\<close> is non-null and not the string
  \<^verbatim>\<open>"0"\<close>; in particular it is true for \<^verbatim>\<open>poolShares = "5"\<close>. The effect returns before the
  check when there is no participant: with a null participant and \<^verbatim>\<open>poolShares = "5"\<close> the
  feature is not shown.
\<close>

theorem no_participant_not_shown:
  "shouldShow exampleFromWei exampleContent
      (exampleHooks\<lparr>accountId := None, poolShares := ''5'', lockedSharesV3 := None\<rparr>) = False
   \<and> gt_zero (coerceNumber (poolShares
        (exampleHooks\<lparr>accountId := None, poolShares := ''5'', lockedSharesV3 := None\<rparr>))) = True"
  by (simp add: shouldShow_def migrationEffect_def truthy_def initialState_def coerceNumber_5)

text \<open>
  Claim C2, amended: for every snapshot the Visibility Gate is true if and only if the
  participant is present (neither null nor empty) and the coerced \<^verbatim>\<open>poolShares\<close> is above 0
  or \<^verbatim>\<open>lockedSharesV3\<close> is truthy (neither null nor empty) and not the string \<^verbatim>\<open>"0"\<close>. With a
  participant present it is true for \<^verbatim>\<open>poolShares = "5"\<close> with \<^verbatim>\<open>lockedSharesV3 = null\<close> and
  true for \<^verbatim>\<open>poolShares = "0"\<close> with \<^verbatim>\<open>lockedSharesV3 = "12"\<close>; it is false for
  \<^verbatim>\<open>poolShares = "0"\<close> with \<^verbatim>\<open>lockedSharesV3 = null\<close>.
\<close>

theorem shouldShow_iff:
  "shouldShow fromWei content h =
     ((accountId h \<noteq> None \<and> accountId h \<noteq> Some [])
      \<and> (gt_zero (coerceNumber (poolShares h))
         \<or> (lockedSharesV3 h \<noteq> None \<and> lockedSharesV3 h \<noteq> Some [] \<and> lockedSharesV3 h \<noteq> Some ''0'')))
   \<and> shouldShow fromWei content (h\<lparr>poolShares := ''5'', lockedSharesV3 := None\<rparr>) =
       (accountId h \<noteq> None \<and> accountId h \<noteq> Some [])
   \<and> shouldShow fromWei content (h\<lparr>poolShares := ''0'', lockedSharesV3 := Some ''12''\<rparr>) =
       (accountId h \<noteq> None \<and> accountId h \<noteq> Some [])
   \<and> shouldShow fromWei content (h\<lparr>poolShares := ''0'', lockedSharesV3 := None\<rparr>) = False"
proof -
  have tr: "truthy v = (v \<noteq> None \<and> v \<noteq> Some [])" for v
    by (cases v) (simp_all add: truthy_def)
  have gate: "shouldShow fromWei content g = (truthy (accountId g) \<and> visibilityCheck g)" for g
  proof (cases "truthy (accountId g)")
    case True
    show ?thesis
    proof (cases "visibilityCheck g")
      case True
      with \<open>truthy (accountId g)\<close> show ?thesis
        by (simp add: shouldShow_def effect_sets_shown)
    next
      case False
      with \<open>truthy (accountId g)\<close> show ?thesis
        by (simp add: shouldShow_def effect_keeps_hidden initialState_def)
    qed
  next
    case False
    then show ?thesis
      by (simp add: shouldShow_def migrationEffect_def initialState_def)
  qed
  have "shouldShow fromWei content h =
     ((accountId h \<noteq> None \<and> accountId h \<noteq> Some [])
      \<and> (gt_zero (coerceNumber (poolShares h))
         \<or> (lockedSharesV3 h \<noteq> None \<and> lockedSharesV3 h \<noteq> Some [] \<and> lockedSharesV3 h \<noteq> Some ''0'')))"
    by (simp add: gate visibilityCheck_def Let_def tr)
  moreover have "shouldShow fromWei content (h\<lparr>poolShares := ''5'', lockedSharesV3 := None\<rparr>) =
       (accountId h \<noteq> None \<and> accountId h \<noteq> Some [])"
    by (simp add: gate visibilityCheck_def coerceNumber_5 tr)
  moreover have "shouldShow fromWei content (h\<lparr>poolShares := ''0'', lockedSharesV3 := Some ''12''\<rparr>) =
       (accountId h \<noteq> None \<and> accountId h \<noteq> Some [])"
    by (simp add: gate visibilityCheck_def tr)
  moreover have "shouldShow fromWei content (h\<lparr>poolShares := ''0'', lockedSharesV3 := None\<rparr>) = False"
    by (simp add: gate visibilityCheck_def coerceNumber_0 tr)
  ultimately show ?thesis by blast
qed

text \<open>
  Claim C8. For every participant address and every sequence of share owners, duplicates
  allowed, the scan reports that the participant has already locked if and only if the
  participant occurs in the sequence; it does for \<^verbatim>\<open>"0xA"\<close> in \<^verbatim>\<open>["0xB","0xA","0xA"]\<close> and
  does not for \<^verbatim>\<open>"0xC"\<close> in the empty sequence.
\<close>

theorem hasAlreadyLocked_iff_member:
  "hasAlreadyLocked participant shareOwners = (participant \<in> set shareOwners)
   \<and> hasAlreadyLocked ''0xA'' [''0xB'', ''0xA'', ''0xA''] = True
   \<and> hasAlreadyLocked ''0xC'' [] = False"
proof -
  have scan: "scanOwners a owners 0 None = Some True \<longleftrightarrow> a \<in> set owners" for a owners
    by (simp add: scanOwners_member)
  have "hasAlreadyLocked participant shareOwners = (participant \<in> set shareOwners)"
    unfolding hasAlreadyLocked_def by (rule scan)
  moreover have "hasAlreadyLocked ''0xA'' [''0xB'', ''0xA'', ''0xA''] = True"
    unfolding hasAlreadyLocked_def by (simp add: scan)
  moreover have "hasAlreadyLocked ''0xC'' [] = False"
    unfolding hasAlreadyLocked_def by (simp add: scan)
  ultimately show ?thesis by blast
qed

text \<open>
  Claim C9, as stated: for every snapshot whose participant address is null the feature
  is not shown and no result is computed. The early return leaves the state slots as they
  were, so once an earlier run has shown the feature, a run with a null participant
  leaves it shown, with the earlier title and action.
\<close>

theorem null_participant_stays_shown:
  "accountId (exampleHooks\<lparr>accountId := None, poolShares := ''3''\<rparr>) = None
   \<and> showMigration (migrationEffect exampleFromWei exampleContent
        (exampleHooks\<lparr>accountId := None, poolShares := ''3''\<rparr>)
        (migrationEffect exampleFromWei exampleContent (exampleHooks\<lparr>poolShares := ''3''\<rparr>) initialState))
       = True
   \<and> st_title (migrationEffect exampleFromWei exampleContent
        (exampleHooks\<lparr>accountId := None, poolShares := ''3''\<rparr>)
        (migrationEffect exampleFromWei exampleContent (exampleHooks\<lparr>poolShares := ''3''\<rparr>) initialState))
       = Some ''Started''
   \<and> st_action (migrationEffect exampleFromWei exampleContent
        (exampleHooks\<lparr>accountId := None, poolShares := ''3''\<rparr>)
        (migrationEffect exampleFromWei exampleContent (exampleHooks\<lparr>poolShares := ''3''\<rparr>) initialState))
       = Some LOCK_SHARES"
proof -
  let ?h = "exampleHooks\<lparr>poolShares := ''3''\<rparr>"
  let ?n = "exampleHooks\<lparr>accountId := None, poolShares := ''3''\<rparr>"
  let ?s = "migrationEffect exampleFromWei exampleContent ?h initialState"
  have skip: "migrationEffect exampleFromWei exampleContent ?n ?s = ?s"
    by (simp add: migrationEffect_def [of _ _ ?n] truthy_def)
  have first: "showMigration ?s = True \<and> st_title ?s = Some ''Started'' \<and> st_action ?s = Some LOCK_SHARES"
    by (simp add: migrationEffect_def switchMessageAndAction_def setTitleMessageAction_def
        getMessageAndActionForLiquidityProvider_def visibilityCheck_def truthy_def Let_def
        coerceNumber_3 exampleHooks_def exampleContent_def initialState_def)
  have "accountId ?n = None" by simp
  with skip first show ?thesis by simp
qed

text \<open>
  Claim C9, amended: for every snapshot whose participant address is null the effect
  returns at once and changes no state slot: the visibility check is not made and no
  title, message or action is computed, whatever \<^verbatim>\<open>poolShares\<close> and \<^verbatim>\<open>lockedSharesV3\<close> are.
  The feature is then shown only if an earlier run had shown it; from the initial state it
  stays hidden and title, message and action stay unset. A participant is a precondition
  of the visibility check.
\<close>

theorem null_participant_no_effect:
  assumes "accountId h = None"
  shows "migrationEffect fromWei content h st = st
         \<and> showMigration (migrationEffect fromWei content h initialState) = False
         \<and> st_title (migrationEffect fromWei content h initialState) = None
         \<and> st_message (migrationEffect fromWei content h initialState) = None
         \<and> st_action (migrationEffect fromWei content h initialState) = None"
  using assms by (simp add: migrationEffect_def truthy_def initialState_def)

text \<open>
  The theorem at a null participant whose balances pass the visibility check.
\<close>

theorem null_participant_no_effect_witness:
  "accountId (exampleHooks\<lparr>accountId := None, poolShares := ''5'', lockedSharesV3 := Some ''12''\<rparr>) = None
   \<and> visibilityCheck (exampleHooks\<lparr>accountId := None, poolShares := ''5'', lockedSharesV3 := Some ''12''\<rparr>)
   \<and> migrationEffect exampleFromWei exampleContent
        (exampleHooks\<lparr>accountId := None, poolShares := ''5'', lockedSharesV3 := Some ''12''\<rparr>) initialState
       = initialState
   \<and> showMigration (migrationEffect exampleFromWei exampleContent
        (exampleHooks\<lparr>accountId := None, poolShares := ''5'', lockedSharesV3 := Some ''12''\<rparr>) initialState)
       = False"
proof -
  let ?h = "exampleHooks\<lparr>accountId := None, poolShares := ''5'', lockedSharesV3 := Some ''12''\<rparr>"
  have h: "accountId ?h = None" by simp
  have v: "visibilityCheck ?h"
    by (simp add: visibilityCheck_def coerceNumber_5)
  from h v null_participant_no_effect [OF h, of exampleFromWei exampleContent initialState]
  show ?thesis by blast
qed

text \<open>
  Claim C10. Across successive runs of the effect the visibility decision is monotone:
  once a run with a participant has found the visibility check true, the feature is shown
  after every later sequence of runs, whatever their snapshots are; the shown state is
  only ever set to true. A later snapshot with coerced \<^verbatim>\<open>poolShares\<close> at most 0 and null
  \<^verbatim>\<open>lockedSharesV3\<close> does not hide the feature.
\<close>

theorem shown_is_monotone:
  assumes "truthy (accountId h0)" and "visibilityCheck h0"
  shows "showMigration (migrationEffects fromWei content later (migrationEffect fromWei content h0 st))"
  using assms by (intro effects_keep_shown effect_sets_shown)

text \<open>
  The theorem at a first snapshot with \<^verbatim>\<open>poolShares = "5"\<close> followed by one with
  \<^verbatim>\<open>poolShares = "0"\<close> and no locked shares, for which the check itself is false.
\<close>

theorem shown_is_monotone_witness:
  "truthy (accountId (exampleHooks\<lparr>poolShares := ''5''\<rparr>))
   \<and> visibilityCheck (exampleHooks\<lparr>poolShares := ''5''\<rparr>)
   \<and> visibilityCheck (exampleHooks\<lparr>poolShares := ''0'', lockedSharesV3 := None\<rparr>) = False
   \<and> showMigration initialState = False
   \<and> showMigration (migrationEffects exampleFromWei exampleContent
        [exampleHooks\<lparr>poolShares := ''0'', lockedSharesV3 := None\<rparr>]
        (migrationEffect exampleFromWei exampleContent (exampleHooks\<lparr>poolShares := ''5''\<rparr>) initialState))"
proof -
  let ?h0 = "exampleHooks\<lparr>poolShares := ''5''\<rparr>"
  let ?h1 = "exampleHooks\<lparr>poolShares := ''0'', lockedSharesV3 := None\<rparr>"
  have a: "truthy (accountId ?h0)"
    by (simp add: truthy_def exampleHooks_def)
  have v: "visibilityCheck ?h0"
    by (simp add: visibilityCheck_def coerceNumber_5)
  have n: "visibilityCheck ?h1 = False"
    by (simp add: visibilityCheck_def truthy_def coerceNumber_0)
  have i: "showMigration initialState = False"
    by (simp add: initialState_def)
  from a v n i shown_is_monotone [OF a v, of exampleFromWei exampleContent "[?h1]" initialState]
  show ?thesis by blast
qed

end
